theory Spec2Isabelle
  imports
    Main
    "HOL-Library.Char_ord"
    "HOL-Library.List_Lexorder"
    "HOL-Library.Sublist"
    "HOL-Library.AList"
    "HOL-Library.Multiset"
begin

section \<open>The generator of the Multilevel Sensor constants\<close>

text \<open>
  A shallow embedding of \<^verbatim>\<open>scripts/generate_multilevel_sensor_constants.py\<close>.
  Python strings are values of type \<open>string\<close>; the model covers ASCII text, and a
  character outside ASCII counts as an uncased, non-alphanumeric character. Python's
  dictionaries keep their insertion order, so a dictionary is an association list with
  distinct keys in insertion order (\<open>AList.update\<close> is the assignment \<^verbatim>\<open>d[k] = v\<close>).
  The two upstream documents enter the model after \<^verbatim>\<open>json.loads\<close>. An exception
  of the script is a value \<open>Inl e\<close>.
\<close>

datatype py_error =
  ValueError | KeyError | StopIteration | CalledProcessError | FileNotFoundError

subsection \<open>Python's string operations\<close>

definition ascii_lowercase :: string where
  "ascii_lowercase = ''abcdefghijklmnopqrstuvwxyz''"

definition ascii_uppercase :: string where
  "ascii_uppercase = ''ABCDEFGHIJKLMNOPQRSTUVWXYZ''"

definition ascii_digits :: string where
  "ascii_digits = ''0123456789''"

definition is_lower :: "char \<Rightarrow> bool" where
  "is_lower c = (c \<in> set ascii_lowercase)"

definition is_upper :: "char \<Rightarrow> bool" where
  "is_upper c = (c \<in> set ascii_uppercase)"

definition is_digit :: "char \<Rightarrow> bool" where
  "is_digit c = (c \<in> set ascii_digits)"

definition is_cased :: "char \<Rightarrow> bool" where
  "is_cased c = (is_lower c \<or> is_upper c)"

definition is_alnum :: "char \<Rightarrow> bool" where
  "is_alnum c = (is_cased c \<or> is_digit c)"

definition to_upper :: "char \<Rightarrow> char" where
  "to_upper c =
     (case map_of (zip ascii_lowercase ascii_uppercase) c of Some u \<Rightarrow> u | None \<Rightarrow> c)"

definition to_lower :: "char \<Rightarrow> char" where
  "to_lower c =
     (case map_of (zip ascii_uppercase ascii_lowercase) c of Some l \<Rightarrow> l | None \<Rightarrow> c)"

text \<open>\<^verbatim>\<open>str.upper()\<close> and \<^verbatim>\<open>str.lower()\<close>.\<close>

definition py_upper :: "string \<Rightarrow> string" where
  "py_upper s = map to_upper s"

definition py_lower :: "string \<Rightarrow> string" where
  "py_lower s = map to_lower s"

text \<open>
  \<^verbatim>\<open>str.title()\<close>: a cased character is upper-cased when the character before it
  is not cased, and lower-cased when it is. The flag is "the previous character is cased".
\<close>

fun title_from :: "bool \<Rightarrow> string \<Rightarrow> string" where
  "title_from prev [] = []"
| "title_from prev (c # cs) =
     (if is_lower c then (if prev then c else to_upper c)
      else if is_upper c then (if prev then to_lower c else c)
      else c) # title_from (is_cased c) cs"

definition py_title :: "string \<Rightarrow> string" where
  "py_title s = title_from False s"

text \<open>
  \<^verbatim>\<open>s.replace(old, new)\<close> for a non-empty \<open>old\<close>: the occurrences are replaced
  from the left and do not overlap.
\<close>

function py_replace :: "string \<Rightarrow> string \<Rightarrow> string \<Rightarrow> string" where
  "py_replace old new [] = []"
| "py_replace old new (c # cs) =
     (if old \<noteq> [] \<and> prefix old (c # cs)
      then new @ py_replace old new (drop (length old) (c # cs))
      else c # py_replace old new cs)"
  by pat_completeness auto
termination
  by (relation "measure (\<lambda>(old, new, s). length s)") (auto simp: neq_Nil_conv)

text \<open>\<^verbatim>\<open>sep.join(xs)\<close>.\<close>

fun py_join :: "string \<Rightarrow> string list \<Rightarrow> string" where
  "py_join sep [] = []"
| "py_join sep [x] = x"
| "py_join sep (x # y # ys) = x @ sep @ py_join sep (y # ys)"

text \<open>\<^verbatim>\<open>old in line\<close> on strings is \<open>sublist old line\<close>.\<close>

definition newline :: char where
  "newline = CHR 0x0A"

text \<open>\<^verbatim>\<open>line.strip("\n")\<close>: the newline characters at both ends are dropped.\<close>

definition strip_newline :: "string \<Rightarrow> string" where
  "strip_newline s =
     rev (dropWhile (\<lambda>c. c = newline) (rev (dropWhile (\<lambda>c. c = newline) s)))"

text \<open>
  \<^verbatim>\<open>str.splitlines()\<close>: the text is cut at every line boundary (a carriage return
  followed by a line feed is one boundary), the boundaries are dropped, and a boundary
  at the very end opens no further line.
\<close>

definition is_linebreak :: "char \<Rightarrow> bool" where
  "is_linebreak c =
     (c \<in> {CHR 0x0A, CHR 0x0B, CHR 0x0C, CHR 0x0D, CHR 0x1C, CHR 0x1D, CHR 0x1E, CHR 0x85})"

fun splitlines_from :: "string \<Rightarrow> string \<Rightarrow> string list" where
  "splitlines_from cur [] = (if cur = [] then [] else [cur])"
| "splitlines_from cur [c] = (if is_linebreak c then [cur] else [cur @ [c]])"
| "splitlines_from cur (c # d # cs) =
     (if c = CHR 0x0D \<and> d = CHR 0x0A then cur # splitlines_from [] cs
      else if is_linebreak c then cur # splitlines_from [] (d # cs)
      else splitlines_from (cur @ [c]) (d # cs))"

definition splitlines :: "string \<Rightarrow> string list" where
  "splitlines s = splitlines_from [] s"

text \<open>
  \<^verbatim>\<open>int(s, 16)\<close>: white space around the number, a sign, the prefix
  \<^verbatim>\<open>0x\<close> and single underscores between the digits (and between the prefix and
  the first digit) are accepted; anything else raises \<^verbatim>\<open>ValueError\<close>.
\<close>

definition is_space :: "char \<Rightarrow> bool" where
  "is_space c =
     (c \<in> {CHR '' '', CHR 0x09, CHR 0x0A, CHR 0x0B, CHR 0x0C, CHR 0x0D,
            CHR 0x1C, CHR 0x1D, CHR 0x1E, CHR 0x1F})"

definition strip_space :: "string \<Rightarrow> string" where
  "strip_space s = rev (dropWhile is_space (rev (dropWhile is_space s)))"

definition hex_digit_value :: "char \<Rightarrow> int option" where
  "hex_digit_value c =
     map_of (zip (ascii_digits @ ''abcdef'' @ ''ABCDEF'')
                 ([0, 1, 2, 3, 4, 5, 6, 7, 8, 9] @ [10, 11, 12, 13, 14, 15] @
                  [10, 11, 12, 13, 14, 15])) c"

text \<open>
  The digits of a number, read from the left: \<open>acc\<close> is the value so far, and the
  flag says that the previous character was a digit (an underscore must follow one and
  be followed by one).
\<close>

fun hex_digits :: "int \<Rightarrow> bool \<Rightarrow> string \<Rightarrow> int option" where
  "hex_digits acc after_digit [] = (if after_digit then Some acc else None)"
| "hex_digits acc after_digit (c # cs) =
     (if c = CHR ''_'' then (if after_digit then hex_digits acc False cs else None)
      else (case hex_digit_value c of
              None \<Rightarrow> None
            | Some d \<Rightarrow> hex_digits (16 * acc + d) True cs))"

definition py_int16 :: "string \<Rightarrow> py_error + int" where
  "py_int16 s =
     (let t = strip_space s;
          neg = prefix ''-'' t;
          u = (if prefix ''-'' t \<or> prefix ''+'' t then tl t else t);
          has_prefix = (prefix ''0x'' u \<or> prefix ''0X'' u);
          v = (if has_prefix then drop 2 u else u);
          w = (if has_prefix \<and> prefix ''_'' v then tl v else v)
      in case hex_digits 0 False w of
           None \<Rightarrow> Inl ValueError
         | Some n \<Rightarrow> Inr (if neg then - n else n))"

text \<open>\<^verbatim>\<open>str(n)\<close> of an integer: its decimal digits, after a minus sign when negative.\<close>

fun nat_digits :: "nat \<Rightarrow> string" where
  "nat_digits n =
     (if n < 10 then [ascii_digits ! n]
      else nat_digits (n div 10) @ [ascii_digits ! (n mod 10)])"

declare nat_digits.simps [simp del]

definition py_str_int :: "int \<Rightarrow> string" where
  "py_str_int i = (if i < 0 then CHR ''-'' # nat_digits (nat (- i)) else nat_digits (nat i))"

subsection \<open>The name normalizer\<close>

text \<open>
  \<^verbatim>\<open>re.sub(r"\([^)]*\)", "", text)\<close>: from the left, every opening parenthesis
  that has a closing one after it is removed together with the text up to the first
  closing parenthesis; the scan goes on behind it.
\<close>

function remove_parenthesis :: "string \<Rightarrow> string" where
  "remove_parenthesis [] = []"
| "remove_parenthesis (c # cs) =
     (if c = CHR ''('' \<and> CHR '')'' \<in> set cs
      then remove_parenthesis (tl (dropWhile (\<lambda>d. d \<noteq> CHR '')'') cs))
      else c # remove_parenthesis cs)"
  by pat_completeness auto
termination
proof (relation "measure length")
  fix c :: char and cs :: string
  have "length (dropWhile (\<lambda>d. d \<noteq> CHR '')'') cs) \<le> length cs"
    by (rule length_dropWhile_le)
  then have "length (tl (dropWhile (\<lambda>d. d \<noteq> CHR '')'') cs)) \<le> length cs"
    by simp
  then show "(tl (dropWhile (\<lambda>d. d \<noteq> CHR '')'') cs), c # cs) \<in> measure length"
    by simp
qed simp_all

text \<open>
  Modelled from the spec: \<^verbatim>\<open>slugify\<close> is imported from the third-party package
  \<^verbatim>\<open>slugify\<close>, which is not part of the repository. The spec describes it as
  "transliterate to a URL/identifier-safe slug using \<^verbatim>\<open>_\<close> as the word separator".
  On ASCII text the package lower-cases the text, drops a comma that stands between two
  digits, takes every maximal run of letters and digits as a word and joins the words
  with the separator. Character references (\<^verbatim>\<open>&amp;\<close>) and the transliteration of
  non-ASCII characters are outside the model.
\<close>

fun cleanup_numbers :: "string \<Rightarrow> string" where
  "cleanup_numbers (a # b # c # cs) =
     (if is_digit a \<and> b = CHR '','' \<and> is_digit c
      then a # cleanup_numbers (c # cs)
      else a # cleanup_numbers (b # c # cs))"
| "cleanup_numbers cs = cs"

text \<open>The words of a text: \<open>w\<close> is the word read so far.\<close>

fun words_from :: "string \<Rightarrow> string \<Rightarrow> string list" where
  "words_from w [] = (if w = [] then [] else [w])"
| "words_from w (c # cs) =
     (if is_alnum c then words_from (w @ [c]) cs
      else (if w = [] then [] else [w]) @ words_from [] cs)"

definition slug_words :: "string \<Rightarrow> string list" where
  "slug_words s = words_from [] (cleanup_numbers (py_lower s))"

definition slugify :: "string \<Rightarrow> string \<Rightarrow> string" where
  "slugify text separator = py_join separator (slug_words text)"

definition enum_name_format :: "string \<Rightarrow> bool \<Rightarrow> string" where
  "enum_name_format name should_remove_parenthesis =
     py_upper (slugify (if should_remove_parenthesis then remove_parenthesis name else name)
                 ''_'')"

definition normalize_name :: "string \<Rightarrow> string" where
  "normalize_name name = py_title (py_replace ''_'' '' '' (enum_name_format name True))"

definition format_for_class_name :: "string \<Rightarrow> string" where
  "format_for_class_name name = py_replace '' '' '''' (normalize_name name) @ ''Scale''"

subsection \<open>The model builder\<close>

text \<open>
  The upstream documents. A scale definition maps a hexadecimal key to the properties of
  the scale, of which the script reads \<^verbatim>\<open>label\<close>; a sensor has a \<^verbatim>\<open>label\<close> and
  \<^verbatim>\<open>scales\<close>, which is a string or a scale definition. A key that a mapping does
  not have is \<open>None\<close>, and reading it raises \<^verbatim>\<open>KeyError\<close>.
\<close>

type_synonym scale_props = "string option"

type_synonym scale_definitions = "(string \<times> scale_props) list"

datatype scale_ref = Named string | Inline scale_definitions

record sensor_props =
  props_label :: "string option"
  props_scales :: "scale_ref option"

type_synonym scale_dict = "(string \<times> int) list"

type_synonym scales_table = "(string \<times> scale_dict) list"

record sensor_entry =
  sensor_id :: int
  sensor_label :: string
  sensor_scale :: string

type_synonym sensors_table = "(string \<times> sensor_entry) list"

text \<open>\<^verbatim>\<open>dict(sorted(d.items(), key=lambda kv: kv[0]))\<close>.\<close>

definition sorted_by_key :: "(string \<times> 'v) list \<Rightarrow> (string \<times> 'v) list" where
  "sorted_by_key d = sort_key fst d"

fun normalize_scale_loop :: "scale_dict \<Rightarrow> scale_definitions \<Rightarrow> py_error + scale_dict" where
  "normalize_scale_loop scale_def' [] = Inr scale_def'"
| "normalize_scale_loop scale_def' ((scale_id, scale_props) # rest) =
     (case py_int16 scale_id of
        Inl e \<Rightarrow> Inl e
      | Inr scale_id' \<Rightarrow>
          (case scale_props of
             None \<Rightarrow> Inl KeyError
           | Some label \<Rightarrow>
               normalize_scale_loop
                 (AList.update (enum_name_format label True) scale_id' scale_def') rest))"

definition normalize_scale_definition :: "scale_definitions \<Rightarrow> py_error + scale_dict" where
  "normalize_scale_definition scale_definitions =
     (case normalize_scale_loop [] scale_definitions of
        Inl e \<Rightarrow> Inl e
      | Inr scale_def' \<Rightarrow> Inr (sorted_by_key scale_def'))"

text \<open>The dictionary comprehension over the default scales.\<close>

fun default_scales_loop ::
  "scales_table \<Rightarrow> (string \<times> scale_definitions) list \<Rightarrow> py_error + scales_table" where
  "default_scales_loop scales [] = Inr scales"
| "default_scales_loop scales ((scale_name, scale_def) # rest) =
     (case normalize_scale_definition scale_def of
        Inl e \<Rightarrow> Inl e
      | Inr d \<Rightarrow> default_scales_loop (AList.update (normalize_name scale_name) d scales) rest)"

text \<open>The body of the loop over the sensor types, and the loop.\<close>

definition remove_parenthesis_for :: "int \<Rightarrow> bool" where
  "remove_parenthesis_for sensor_id' = (sensor_id' \<notin> {87, 88})"

definition sensor_step ::
  "scales_table \<times> sensors_table \<Rightarrow> string \<times> sensor_props \<Rightarrow>
   py_error + scales_table \<times> sensors_table" where
  "sensor_step st entry =
     (case st of (scales, sensors) \<Rightarrow>
      case entry of (sensor_id_key, sensor_props) \<Rightarrow>
      case py_int16 sensor_id_key of
        Inl e \<Rightarrow> Inl e
      | Inr sensor_id' \<Rightarrow>
      case props_scales sensor_props of
        None \<Rightarrow> Inl KeyError
      | Some scale_def \<Rightarrow>
      case props_label sensor_props of
        None \<Rightarrow> Inl KeyError
      | Some label \<Rightarrow>
          (let sensor_name = enum_name_format label (remove_parenthesis_for sensor_id')
           in case scale_def of
                Named ref \<Rightarrow>
                  Inr (scales,
                       AList.update sensor_name
                         \<lparr>sensor_id = sensor_id', sensor_label = label,
                          sensor_scale = normalize_name (py_replace ''$SCALES:'' '''' ref)\<rparr>
                         sensors)
              | Inline defs \<Rightarrow>
                  (case normalize_scale_definition defs of
                     Inl e \<Rightarrow> Inl e
                   | Inr d \<Rightarrow>
                       Inr (AList.update sensor_name d scales,
                            AList.update sensor_name
                              \<lparr>sensor_id = sensor_id', sensor_label = label,
                               sensor_scale = normalize_name sensor_name\<rparr>
                              sensors))))"

fun sensors_loop ::
  "scales_table \<times> sensors_table \<Rightarrow> (string \<times> sensor_props) list \<Rightarrow>
   py_error + scales_table \<times> sensors_table" where
  "sensors_loop st [] = Inr st"
| "sensors_loop st (entry # rest) =
     (case sensor_step st entry of
        Inl e \<Rightarrow> Inl e
      | Inr st' \<Rightarrow> sensors_loop st' rest)"

definition build ::
  "(string \<times> scale_definitions) list \<Rightarrow> (string \<times> sensor_props) list \<Rightarrow>
   py_error + scales_table \<times> sensors_table" where
  "build default_scales sensor_types =
     (case default_scales_loop [] default_scales of
        Inl e \<Rightarrow> Inl e
      | Inr scales0 \<Rightarrow>
          (case sensors_loop (scales0, []) sensor_types of
             Inl e \<Rightarrow> Inl e
           | Inr (scales, sensors) \<Rightarrow> Inr (sorted_by_key scales, sorted_by_key sensors)))"

subsection \<open>The unit index\<close>

text \<open>\<^verbatim>\<open>d[k].append(v)\<close> on a \<^verbatim>\<open>defaultdict(list)\<close>.\<close>

definition defaultdict_append ::
  "(string \<times> string list) list \<Rightarrow> string \<Rightarrow> string \<Rightarrow> (string \<times> string list) list" where
  "defaultdict_append d k v =
     (case map_of d k of
        None \<Rightarrow> d @ [(k, [v])]
      | Some l \<Rightarrow> AList.update k (l @ [v]) d)"

definition unit_ref :: "string \<Rightarrow> string \<Rightarrow> string" where
  "unit_ref scale_name unit_name = format_for_class_name scale_name @ ''.'' @ unit_name"

definition unit_index_group ::
  "(string \<times> string list) list \<Rightarrow> string \<times> scale_dict \<Rightarrow> (string \<times> string list) list" where
  "unit_index_group m g =
     fold (\<lambda>unit_name m'. defaultdict_append m' unit_name (unit_ref (fst g) unit_name))
       (map fst (snd g)) m"

definition unit_name_to_enum_map :: "scales_table \<Rightarrow> (string \<times> string list) list" where
  "unit_name_to_enum_map scales =
     map (\<lambda>(unit_name, enum_list). (unit_name, sort enum_list))
       (sorted_by_key (fold (\<lambda>g m. unit_index_group m g) scales []))"

subsection \<open>The renderer\<close>

text \<open>
  \<^verbatim>\<open>generate_int_enum_class_definition\<close>. The values of \<open>enum_map\<close> are made
  integers by \<open>get_id_func\<close>; where the script passes no function the values are the
  integers themselves and \<open>get_id_func\<close> is the identity. An f-string writes an integer
  as \<^verbatim>\<open>str\<close> does.
\<close>

definition generate_int_enum_class_definition ::
  "string \<Rightarrow> (string \<times> 'a) list \<Rightarrow> string option \<Rightarrow> ('a \<Rightarrow> int) \<Rightarrow> string \<Rightarrow> string \<Rightarrow>
   string list" where
  \<open>generate_int_enum_class_definition class_name enum_map enum_ref_url get_id_func
       docstring_info base_class =
     [''class '' @ class_name @ ''('' @ base_class @ ''):'',
      ''    '' @ py_replace ''  '' '' ''
                  (''"""Enum for known '' @ docstring_info @ '' multilevel sensor types."""'')]
     @ (case enum_ref_url of
          None \<Rightarrow> []
        | Some url \<Rightarrow> if url = [] then [] else [''    # '' @ url])
     @ map (\<lambda>(enum_name, enum_id).
              ''    '' @ enum_name @ '' = '' @ py_str_int (get_id_func enum_id)) enum_map\<close>

definition generate_int_enum_base_class :: "string \<Rightarrow> string \<Rightarrow> string list" where
  "generate_int_enum_base_class class_name docstring =
     [''class '' @ class_name @ ''(IntEnum):'', CHR 0x09 # docstring]"

definition SENSOR_TYPE_URL :: string where
  "SENSOR_TYPE_URL =
     ''https://github.com/'' @ ''zwave-js/node-zwave-js'' @ ''/blob/'' @ ''master'' @ ''/'' @
     ''packages/config/config/sensorTypes.json''"

definition header_lines :: "string list" where
  \<open>header_lines =
     [''"""Constants for the Multilevel Sensor CC."""'',
      '''',
      ''# ----------------------------------------------------------------------------------- #'',
      ''# **BEGINNING OF AUTOGENERATED CONTENT** (TO ADD ADDITIONAL MANUAL CONTENT, LOOK FOR  #'',
      ''# THE "END OF AUTOGENERATED CONTENT" COMMENT BLOCK AND ADD YOUR CODE BELOW IT)        #'',
      ''# ----------------------------------------------------------------------------------- #'',
      '''',
      ''from __future__ import annotations'',
      '''',
      ''from enum import IntEnum'',
      ''CC_SPECIFIC_SCALE = "scale"'',
      ''CC_SPECIFIC_SENSOR_TYPE = "sensorType"'',
      '''']\<close>

definition end_marker_block :: "string list" where
  "end_marker_block =
     ['''',
      ''# ----------------------------------------------------------------------------------- #'',
      ''# **END OF AUTOGENERATED CONTENT** (DO NOT EDIT/REMOVE THIS COMMENT BLOCK AND DO NOT  #'',
      ''# EDIT ANYTHING ABOVE IT. IF A NEW IMPORT IS NEEDED, UPDATE THE LINES AROUND 135      #'',
      ''# IN scripts/generate_multilevel_sensor_constants.py THEN RE-RUN THE SCRIPT. ALL      #'',
      ''# LINES WRITTEN BELOW THIS BLOCK WILL BE PRESERVED AS LONG AS THIS BLOCK REMAINS)     #'',
      ''# ----------------------------------------------------------------------------------- #'',
      '''']"

definition property_lines :: "sensors_table \<Rightarrow> string list" where
  \<open>property_lines sensors =
     map (\<lambda>(sensor, data). sensor @ ''_PROPERTY = "'' @ sensor_label data @ ''"'') sensors\<close>

definition scale_class_lines :: "scales_table \<Rightarrow> string list" where
  "scale_class_lines scales =
     concat (map (\<lambda>(scale_name, scale_dict).
                    generate_int_enum_class_definition (format_for_class_name scale_name)
                      scale_dict (Some SENSOR_TYPE_URL) (\<lambda>enum_id. enum_id)
                      (''scales for '' @ scale_name) ''MultilevelSensorScaleType'') scales)"

definition multilevel_sensor_type_to_scale_map_line :: "sensors_table \<Rightarrow> string" where
  "multilevel_sensor_type_to_scale_map_line sensors =
     ''MULTILEVEL_SENSOR_TYPE_TO_SCALE_MAP: dict[MultilevelSensorType, '' @
     ''type[MultilevelSensorScaleType]] = {'' @
     concat (map (\<lambda>(sensor_name, sensor_def).
                    ''    MultilevelSensorType.'' @ sensor_name @ '': '' @
                    format_for_class_name (sensor_scale sensor_def) @ '','') sensors) @
     ''}''"

definition unit_lines :: "scales_table \<Rightarrow> string list" where
  "unit_lines scales =
     map (\<lambda>(unit_name, unit_enums).
            ''UNIT_'' @ unit_name @ '': list[MultilevelSensorScaleType] = ['' @
            py_join '','' (sort unit_enums) @ '']'')
       (unit_name_to_enum_map scales)"

text \<open>The list \<^verbatim>\<open>lines\<close> before the splice.\<close>

definition render :: "scales_table \<Rightarrow> sensors_table \<Rightarrow> string list" where
  \<open>render scales sensors =
     header_lines
     @ property_lines sensors
     @ generate_int_enum_class_definition ''MultilevelSensorType'' sensors
         (Some SENSOR_TYPE_URL) sensor_id '''' ''IntEnum''
     @ generate_int_enum_base_class ''MultilevelSensorScaleType''
         ''"""Common base class for multilevel sensor scale enums."""''
     @ scale_class_lines scales
     @ [multilevel_sensor_type_to_scale_map_line sensors, '''']
     @ unit_lines scales
     @ end_marker_block\<close>

subsection \<open>The splicer\<close>

definition end_marker :: string where
  "end_marker = ''**END OF AUTOGENERATED CONTENT**''"

text \<open>
  \<^verbatim>\<open>next(i for i, line in enumerate(existing_const_file) if marker in line)\<close>: the
  index of the first line that contains the marker; \<^verbatim>\<open>next\<close> raises
  \<^verbatim>\<open>StopIteration\<close> when there is none.
\<close>

fun first_marker_line :: "string list \<Rightarrow> nat option" where
  "first_marker_line [] = None"
| "first_marker_line (line # rest) =
     (if sublist end_marker line then Some 0 else map_option Suc (first_marker_line rest))"

definition splice :: "string list \<Rightarrow> string list \<Rightarrow> py_error + string list" where
  "splice lines existing_const_file =
     (case first_marker_line existing_const_file of
        None \<Rightarrow> Inl StopIteration
      | Some i \<Rightarrow>
          (let manually_written_code_start_idx = i + 6
           in if length existing_const_file > manually_written_code_start_idx
              then Inr (lines @
                        map strip_newline
                          (drop manually_written_code_start_idx existing_const_file))
              else Inr lines))"

subsection \<open>The script\<close>

text \<open>
  The world of the script: the text of the constants file (\<open>None\<close> when the file does
  not exist) and what the script has printed. The external programs are given by what
  they do in this run: a process that cannot be started is \<open>None\<close>, otherwise it has a
  return code and an output; the formatter also rewrites the file.
\<close>

record world =
  const_file :: "string option"
  printed :: "string list"

record proc_result =
  returncode :: int
  proc_stdout :: string

record env =
  which_black :: "proc_result option"
  black :: "string \<Rightarrow> proc_result option \<times> string"
  which_git :: "proc_result option"
  git_diff_stat :: "proc_result option"

datatype outcome = Completed | SysExit int | Uncaught py_error

fun exit_status :: "outcome \<Rightarrow> int" where
  "exit_status Completed = 0"
| "exit_status (SysExit n) = n"
| "exit_status (Uncaught e) = 1"

text \<open>
  \<^verbatim>\<open>subprocess.run(cmd, capture_output=..., check=True).stdout\<close>: a return code
  other than zero raises \<^verbatim>\<open>CalledProcessError\<close>; the attribute \<^verbatim>\<open>stdout\<close>
  holds the output when it is captured and is \<^verbatim>\<open>None\<close> when it is not.
\<close>

definition subprocess_run_stdout :: "bool \<Rightarrow> proc_result option \<Rightarrow> py_error + string option" where
  "subprocess_run_stdout capture_output p =
     (case p of
        None \<Rightarrow> Inl FileNotFoundError
      | Some r \<Rightarrow>
          if returncode r \<noteq> 0 then Inl CalledProcessError
          else Inr (if capture_output then Some (proc_stdout r) else None))"

text \<open>The truth value of \<^verbatim>\<open>stdout\<close>: neither \<^verbatim>\<open>None\<close> nor empty.\<close>

fun truthy :: "string option \<Rightarrow> bool" where
  "truthy None = False"
| "truthy (Some s) = (s \<noteq> [])"

text \<open>
  \<^verbatim>\<open>read_text\<close> opens the file with universal newlines: a carriage return, alone
  or before a line feed, is read as a line feed.
\<close>

definition universal_newlines :: "string \<Rightarrow> string" where
  "universal_newlines s =
     py_replace [CHR 0x0D] [newline] (py_replace [CHR 0x0D, newline] [newline] s)"

definition read_text :: "world \<Rightarrow> py_error + string" where
  "read_text w =
     (case const_file w of
        None \<Rightarrow> Inl FileNotFoundError
      | Some t \<Rightarrow> Inr (universal_newlines t))"

definition write_text :: "string \<Rightarrow> world \<Rightarrow> world" where
  "write_text t w = w\<lparr>const_file := Some t\<rparr>"

text \<open>From the two documents to the written file.\<close>

definition regenerate ::
  "(string \<times> scale_definitions) list \<Rightarrow> (string \<times> sensor_props) list \<Rightarrow> world \<Rightarrow>
   py_error + world" where
  "regenerate default_scales sensor_types w =
     (case build default_scales sensor_types of
        Inl e \<Rightarrow> Inl e
      | Inr (scales, sensors) \<Rightarrow>
          (case read_text w of
             Inl e \<Rightarrow> Inl e
           | Inr t \<Rightarrow>
               (case splice (render scales sensors) (splitlines t) of
                  Inl e \<Rightarrow> Inl e
                | Inr lines \<Rightarrow> Inr (write_text (py_join [newline] lines) w))))"

text \<open>The formatter is run when \<^verbatim>\<open>which black\<close> prints a path.\<close>

definition format_step :: "env \<Rightarrow> world \<Rightarrow> py_error option \<times> world" where
  "format_step e w =
     (case subprocess_run_stdout True (which_black e) of
        Inl err \<Rightarrow> (Some err, w)
      | Inr out \<Rightarrow>
          if truthy out
          then (case const_file w of
                  None \<Rightarrow> (Some FileNotFoundError, w)
                | Some t \<Rightarrow>
                    (case black e t of (p, t') \<Rightarrow>
                       (case subprocess_run_stdout False p of
                          Inl err \<Rightarrow> (Some err, write_text t' w)
                        | Inr _ \<Rightarrow> (None, write_text t' w))))
          else (None,
                w\<lparr>printed := printed w @
                  [''Could not run black on new file, please run it to properly format it.'']\<rparr>))"

text \<open>The check of the working tree.\<close>

definition git_check :: "env \<Rightarrow> world \<Rightarrow> outcome \<times> world" where
  "git_check e w =
     (case subprocess_run_stdout True (which_git e) of
        Inl err \<Rightarrow> (Uncaught err, w)
      | Inr out \<Rightarrow>
          if truthy out
          then (case subprocess_run_stdout False (git_diff_stat e) of
                  Inl err \<Rightarrow> (Uncaught err, w)
                | Inr diff_stdout \<Rightarrow>
                    if diff_stdout \<noteq> None
                    then (SysExit 1,
                          w\<lparr>printed := printed w @
                            [''Repo is dirty and needs to be committed!'']\<rparr>)
                    else (Completed, w))
          else (Completed,
                w\<lparr>printed := printed w @
                  [''Could not run `git diff --stat` on repo, please run it to determine whether '' @
                   ''constants have changed.'']\<rparr>))"

definition script ::
  "(string \<times> scale_definitions) list \<Rightarrow> (string \<times> sensor_props) list \<Rightarrow> env \<Rightarrow> world \<Rightarrow>
   outcome \<times> world" where
  "script default_scales sensor_types e w =
     (case regenerate default_scales sensor_types w of
        Inl err \<Rightarrow> (Uncaught err, w)
      | Inr w1 \<Rightarrow>
          (case format_step e w1 of
             (Some err, w2) \<Rightarrow> (Uncaught err, w2)
           | (None, w2) \<Rightarrow> git_check e w2))"

subsection \<open>Notions used in the properties\<close>

text \<open>
  A slug word is what \<open>slug_words\<close> returns: a non-empty word of lower-case letters and
  digits. The normalized display name of a slug word is its capitalization.
\<close>

definition slug_word :: "string \<Rightarrow> bool" where
  "slug_word w = (w \<noteq> [] \<and> (\<forall>c\<in>set w. is_alnum c \<and> \<not> is_upper c))"

definition capitalize :: "string \<Rightarrow> string" where
  "capitalize w = py_title (py_upper w)"

text \<open>
  What one entry of a scale definition puts into the dictionary, and what one sensor
  puts into the table of the sensors; \<open>None\<close> when reading the entry raises.
\<close>

definition scale_item :: "string \<times> scale_props \<Rightarrow> (string \<times> int) option" where
  "scale_item entry =
     (case entry of (scale_id, scale_props) \<Rightarrow>
        (case (py_int16 scale_id, scale_props) of
           (Inr n, Some label) \<Rightarrow> Some (enum_name_format label True, n)
         | _ \<Rightarrow> None))"

definition scale_definitions_ok :: "scale_definitions \<Rightarrow> bool" where
  "scale_definitions_ok defs = list_all (\<lambda>entry. scale_item entry \<noteq> None) defs"

definition sensor_item :: "string \<times> sensor_props \<Rightarrow> (string \<times> sensor_entry) option" where
  "sensor_item entry =
     (case entry of (sensor_id_key, sensor_props) \<Rightarrow>
        (case (py_int16 sensor_id_key, props_label sensor_props, props_scales sensor_props) of
           (Inr n, Some label, Some scale_def) \<Rightarrow>
             (let sensor_name = enum_name_format label (remove_parenthesis_for n)
              in Some (sensor_name,
                       \<lparr>sensor_id = n, sensor_label = label,
                        sensor_scale =
                          (case scale_def of
                             Named ref \<Rightarrow> normalize_name (py_replace ''$SCALES:'' '''' ref)
                           | Inline defs \<Rightarrow> normalize_name sensor_name)\<rparr>))
         | _ \<Rightarrow> None))"

definition sensor_props_ok :: "string \<times> sensor_props \<Rightarrow> bool" where
  "sensor_props_ok entry =
     (sensor_item entry \<noteq> None \<and>
      (case props_scales (snd entry) of
         Some (Inline defs) \<Rightarrow> scale_definitions_ok defs
       | _ \<Rightarrow> True))"






section \<open>Properties\<close>

subsection \<open>Characters\<close>

lemmas char_class_defs =
  is_lower_def is_upper_def is_digit_def is_cased_def is_alnum_def
  ascii_lowercase_def ascii_uppercase_def ascii_digits_def

lemma to_lower_not_upper: "\<not> is_upper (to_lower c)"
  unfolding char_class_defs to_lower_def
  by (auto split: option.splits if_splits)

lemma to_lower_to_upper: "to_lower (to_upper c) = to_lower c"
  unfolding to_lower_def to_upper_def ascii_lowercase_def ascii_uppercase_def
  by (simp split: option.splits if_splits)

lemma to_lower_idem: "to_lower (to_lower c) = to_lower c"
  unfolding to_lower_def to_upper_def ascii_lowercase_def ascii_uppercase_def
  by (simp split: option.splits if_splits)

lemma to_lower_id: "\<not> is_upper c \<Longrightarrow> to_lower c = c"
  unfolding char_class_defs to_lower_def
  by (simp split: option.splits if_splits)

lemma to_upper_id: "\<not> is_lower c \<Longrightarrow> to_upper c = c"
  unfolding char_class_defs to_upper_def
  by (simp split: option.splits if_splits)

lemma lower_not_upper: "is_lower c \<Longrightarrow> \<not> is_upper c"
  unfolding char_class_defs by auto

lemma digit_not_cased: "is_digit c \<Longrightarrow> \<not> is_cased c"
  unfolding char_class_defs by auto

lemma is_alnum_to_upper: "is_alnum (to_upper c) = is_alnum c"
  unfolding char_class_defs to_upper_def
  by (simp split: option.splits if_splits)

lemma is_alnum_to_lower: "is_alnum (to_lower c) = is_alnum c"
  unfolding char_class_defs to_lower_def
  by (simp split: option.splits if_splits)

lemma is_upper_to_upper: "is_lower c \<Longrightarrow> is_upper (to_upper c)"
  unfolding char_class_defs to_upper_def by auto

lemma is_lower_to_lower: "is_upper c \<Longrightarrow> is_lower (to_lower c)"
  unfolding char_class_defs to_lower_def by auto

lemma is_digit_to_lower: "is_digit (to_lower c) = is_digit c"
  unfolding char_class_defs to_lower_def
  by (simp split: option.splits if_splits)

lemma not_alnum_special:
  "\<not> is_alnum CHR '' ''" "\<not> is_alnum CHR ''_''" "\<not> is_alnum CHR ''(''"
  "\<not> is_alnum CHR '',''" "\<not> is_alnum CHR ''*''" "\<not> is_alnum CHR ''.''"
  unfolding char_class_defs by simp_all

subsection \<open>Joining and splitting words\<close>


lemma py_join_Cons: "ys \<noteq> [] \<Longrightarrow> py_join sep (x # ys) = x @ sep @ py_join sep ys"
  by (cases ys) simp_all

lemma map_py_join: "map f (py_join sep xs) = py_join (map f sep) (map (map f) xs)"
  by (induction sep xs rule: py_join.induct) simp_all

lemma set_py_join: "set (py_join sep xs) \<subseteq> set sep \<union> \<Union> (set ` set xs)"
  by (induction sep xs rule: py_join.induct) auto

lemma py_replace_char: "py_replace [a] [b] s = map (\<lambda>c. if c = a then b else c) s"
  by (induction s) auto


lemma title_from_append:
  "title_from b (x @ y) = title_from b x @ title_from (if x = [] then b else is_cased (last x)) y"
  by (induction x arbitrary: b) simp_all

lemma title_from_sep:
  "\<not> is_cased c \<Longrightarrow> title_from b (x @ c # y) = title_from b x @ c # title_from False y"
  by (simp add: title_from_append is_cased_def)

lemma py_title_join:
  "py_title (py_join '' '' xs) = py_join '' '' (map py_title xs)"
proof (induction "'' ''" xs rule: py_join.induct)
  case (3 x y ys)
  have "\<not> is_cased CHR '' ''" unfolding char_class_defs by simp
  then show ?case using 3 by (simp add: py_title_def title_from_sep)
qed (simp_all add: py_title_def)

lemma py_lower_title_from: "py_lower (title_from b s) = py_lower s"
  by (induction s arbitrary: b) (simp_all add: py_lower_def to_lower_to_upper to_lower_idem)

lemma py_lower_upper: "py_lower (py_upper s) = py_lower s"
  by (simp add: py_lower_def py_upper_def to_lower_to_upper)

lemma py_lower_slug_word: "\<forall>c\<in>set w. \<not> is_upper c \<Longrightarrow> py_lower w = w"
  by (induction w) (simp_all add: py_lower_def to_lower_id)

lemma cleanup_numbers_absent: "CHR '','' \<notin> set s \<Longrightarrow> cleanup_numbers s = s"
  by (induction s rule: cleanup_numbers.induct) auto

lemma set_cleanup_numbers: "set (cleanup_numbers s) \<subseteq> set s"
  by (induction s rule: cleanup_numbers.induct) auto

lemma remove_parenthesis_absent: "CHR ''('' \<notin> set s \<Longrightarrow> remove_parenthesis s = s"
  by (induction s) auto

lemma words_from_alnum:
  "\<forall>c\<in>set v. is_alnum c \<Longrightarrow> words_from w (v @ rest) = words_from (w @ v) rest"
  by (induction v arbitrary: w) simp_all

lemma words_from_join:
  "\<forall>x\<in>set xs. x \<noteq> [] \<and> (\<forall>c\<in>set x. is_alnum c) \<Longrightarrow> words_from [] (py_join '' '' xs) = xs"
proof (induction "'' ''" xs rule: py_join.induct)
  case 1
  then show ?case by simp
next
  case (2 x)
  then show ?case using words_from_alnum [of x "[]" "[]"] by simp
next
  case (3 x y ys)
  have "words_from [] (x @ '' '' @ py_join '' '' (y # ys))
        = words_from x ('' '' @ py_join '' '' (y # ys))"
    using 3 words_from_alnum [of x "[]"] by simp
  also have "\<dots> = x # words_from [] (py_join '' '' (y # ys))"
    using 3 by (simp add: not_alnum_special)
  finally show ?case using 3 by simp
qed

lemma words_from_slug:
  "\<forall>c\<in>set w. is_alnum c \<and> \<not> is_upper c \<Longrightarrow> \<forall>c\<in>set s. \<not> is_upper c \<Longrightarrow>
   \<forall>x\<in>set (words_from w s). slug_word x"
proof (induction s arbitrary: w)
  case Nil
  then show ?case by (simp add: slug_word_def)
next
  case (Cons c s)
  show ?case
  proof (cases "is_alnum c")
    case True
    then show ?thesis using Cons.prems Cons.IH [of "w @ [c]"] by simp
  next
    case False
    then show ?thesis using Cons.prems Cons.IH [of "[]"] by (simp add: slug_word_def)
  qed
qed

lemma slug_words_slug: "\<forall>x\<in>set (slug_words s). slug_word x"
proof -
  have "\<forall>c\<in>set (py_lower s). \<not> is_upper c"
    by (simp add: py_lower_def to_lower_not_upper)
  then have "\<forall>c\<in>set (cleanup_numbers (py_lower s)). \<not> is_upper c"
    using set_cleanup_numbers by blast
  then show ?thesis
    unfolding slug_words_def using words_from_slug [of "[]"] by simp
qed


subsection \<open>Idempotence of the display name\<close>


lemma title_from_alnum:
  "\<forall>c\<in>set s. is_alnum c \<Longrightarrow> \<forall>c\<in>set (title_from b s). is_alnum c"
  by (induction s arbitrary: b) (simp_all add: is_alnum_to_upper is_alnum_to_lower)

lemma capitalize_alnum: "\<forall>c\<in>set w. is_alnum c \<Longrightarrow> \<forall>c\<in>set (capitalize w). is_alnum c"
  unfolding capitalize_def py_title_def py_upper_def
  by (rule title_from_alnum) (simp add: is_alnum_to_upper)

lemma capitalize_nonempty: "w \<noteq> [] \<Longrightarrow> capitalize w \<noteq> []"
  by (cases w) (simp_all add: capitalize_def py_title_def py_upper_def)

lemma py_lower_capitalize: "\<forall>c\<in>set w. \<not> is_upper c \<Longrightarrow> py_lower (capitalize w) = w"
  by (simp add: capitalize_def py_title_def py_lower_title_from py_lower_upper py_lower_slug_word)

lemma map_id_on: "\<forall>c\<in>set u. f c = c \<Longrightarrow> map f u = u"
  by (induction u) simp_all

lemma normalize_name_words:
  "normalize_name s = py_join '' '' (map capitalize (slug_words (remove_parenthesis s)))"
proof -
  define W where "W = slug_words (remove_parenthesis s)"
  define f where "f = (\<lambda>c. if c = CHR ''_'' then CHR '' '' else c)"
  have W: "\<forall>x\<in>set W. slug_word x"
    unfolding W_def by (rule slug_words_slug)
  have up: "py_upper (py_join ''_'' W) = py_join ''_'' (map py_upper W)"
    unfolding py_upper_def by (simp add: map_py_join to_upper_def ascii_lowercase_def ascii_uppercase_def)
  have "map f (py_upper w) = py_upper w" if "w \<in> set W" for w
  proof (rule map_id_on, rule ballI)
    fix c assume "c \<in> set (py_upper w)"
    then have "is_alnum c"
      using W that by (auto simp: py_upper_def slug_word_def is_alnum_to_upper)
    then show "f c = c"
      using not_alnum_special(2) by (auto simp: f_def)
  qed
  then have m: "map (map f) (map py_upper W) = map py_upper W"
    by (induction W) simp_all
  have "py_replace ''_'' '' '' (py_join ''_'' (map py_upper W))
        = map f (py_join ''_'' (map py_upper W))"
    by (simp add: py_replace_char f_def)
  also have "\<dots> = py_join (map f ''_'') (map (map f) (map py_upper W))"
    by (rule map_py_join)
  also have "\<dots> = py_join '' '' (map py_upper W)"
    by (simp only: m) (simp add: f_def)
  finally have rep: "py_replace ''_'' '' '' (py_join ''_'' (map py_upper W))
                     = py_join '' '' (map py_upper W)" .
  have "normalize_name s = py_title (py_join '' '' (map py_upper W))"
    by (simp add: normalize_name_def enum_name_format_def slugify_def W_def [symmetric] up rep)
  also have "\<dots> = py_join '' '' (map capitalize W)"
    by (simp add: py_title_join comp_def capitalize_def [abs_def])
  finally show ?thesis by (simp add: W_def)
qed

lemma slug_words_display:
  assumes "\<forall>x\<in>set W. slug_word x"
  shows "slug_words (remove_parenthesis (py_join '' '' (map capitalize W))) = W"
proof -
  define N where "N = py_join '' '' (map capitalize W)"
  have alnum: "\<forall>c\<in>set (capitalize x). is_alnum c" if "x \<in> set W" for x
    using that assms by (intro capitalize_alnum) (simp add: slug_word_def)
  have chars: "c = CHR '' '' \<or> is_alnum c" if "c \<in> set N" for c
    using that set_py_join [of "'' ''" "map capitalize W"] alnum
    unfolding N_def by auto
  have "CHR ''('' \<notin> set N"
    using chars not_alnum_special(3) by auto
  then have rp: "remove_parenthesis N = N"
    by (rule remove_parenthesis_absent)
  have ml: "map (map to_lower) (map capitalize W) = W"
    using assms
    by (induction W) (simp_all add: py_lower_capitalize [unfolded py_lower_def] slug_word_def)
  have "py_lower N = py_join (map to_lower '' '') (map (map to_lower) (map capitalize W))"
    unfolding N_def py_lower_def by (rule map_py_join)
  also have "\<dots> = py_join '' '' W"
    by (simp only: ml) (simp add: to_lower_def ascii_lowercase_def ascii_uppercase_def)
  finally have low: "py_lower N = py_join '' '' W" .
  have "CHR '','' \<notin> set (py_join '' '' W)"
  proof
    assume "CHR '','' \<in> set (py_join '' '' W)"
    then obtain x where "x \<in> set W" "CHR '','' \<in> set x"
      using set_py_join [of "'' ''" W] by auto
    then show False
      using assms not_alnum_special(4) by (auto simp: slug_word_def)
  qed
  then have cn: "cleanup_numbers (py_join '' '' W) = py_join '' '' W"
    by (rule cleanup_numbers_absent)
  have "words_from [] (py_join '' '' W) = W"
    using assms by (intro words_from_join) (simp add: slug_word_def)
  then show ?thesis
    by (simp add: N_def [symmetric] rp slug_words_def low cn)
qed

lemma normalize_name_idem: "normalize_name (normalize_name s) = normalize_name s"
proof -
  define W where "W = slug_words (remove_parenthesis s)"
  have W: "\<forall>x\<in>set W. slug_word x"
    unfolding W_def by (rule slug_words_slug)
  have N: "normalize_name s = py_join '' '' (map capitalize W)"
    unfolding W_def by (rule normalize_name_words)
  have "normalize_name (py_join '' '' (map capitalize W))
        = py_join '' '' (map capitalize
            (slug_words (remove_parenthesis (py_join '' '' (map capitalize W)))))"
    by (rule normalize_name_words)
  also have "\<dots> = py_join '' '' (map capitalize W)"
    by (simp only: slug_words_display [OF W])
  finally show ?thesis by (simp only: N)
qed

lemma format_for_class_name_normalize:
  "format_for_class_name (normalize_name s) = format_for_class_name s"
  by (simp add: format_for_class_name_def normalize_name_idem)

subsection \<open>The splicer\<close>

lemma first_marker_line_None:
  "first_marker_line existing = None \<longleftrightarrow> (\<forall>line\<in>set existing. \<not> sublist end_marker line)"
  by (induction existing) auto

lemma first_marker_line_Some:
  "first_marker_line existing = Some i \<longleftrightarrow>
     i < length existing \<and> sublist end_marker (existing ! i) \<and>
     (\<forall>j<i. \<not> sublist end_marker (existing ! j))"
proof (induction existing arbitrary: i)
  case Nil
  then show ?case by simp
next
  case (Cons line rest)
  show ?case
  proof (cases "sublist end_marker line")
    case True
    then show ?thesis by (cases i) auto
  next
    case False
    show ?thesis
    proof (cases i)
      case 0
      then show ?thesis using False by simp
    next
      case (Suc k)
      have "(\<forall>j<Suc k. \<not> sublist end_marker ((line # rest) ! j))
            \<longleftrightarrow> (\<forall>j<k. \<not> sublist end_marker (rest ! j))"
        using False by (auto simp: less_Suc_eq_0_disj)
      then show ?thesis
        using False Suc Cons.IH [of k] by auto
    qed
  qed
qed
lemma splitlines_from_no_linebreak:
  "\<forall>c\<in>set cur. \<not> is_linebreak c \<Longrightarrow>
   \<forall>l\<in>set (splitlines_from cur s). \<forall>c\<in>set l. \<not> is_linebreak c"
proof (induction cur s rule: splitlines_from.induct)
  case (1 cur)
  then show ?case by simp
next
  case (2 cur c)
  then show ?case by simp
next
  case (3 cur c d cs)
  show ?case
  proof (cases "c = CHR 0x0D \<and> d = CHR 0x0A")
    case True
    have "\<forall>l\<in>set (splitlines_from [] cs). \<forall>c\<in>set l. \<not> is_linebreak c"
      using "3.IH"(1) [OF True] by simp
    then show ?thesis using True "3.prems" by simp
  next
    case False
    show ?thesis
    proof (cases "is_linebreak c")
      case True
      have "\<forall>l\<in>set (splitlines_from [] (d # cs)). \<forall>c\<in>set l. \<not> is_linebreak c"
        using "3.IH"(2) [OF False True] by simp
      then show ?thesis using False True "3.prems" by auto
    next
      case nl: False
      have "\<forall>l\<in>set (splitlines_from (cur @ [c]) (d # cs)). \<forall>c\<in>set l. \<not> is_linebreak c"
        using "3.IH"(3) [OF False nl] "3.prems" nl by simp
      then show ?thesis using False nl by auto
    qed
  qed
qed

lemma splitlines_no_linebreak:
  "l \<in> set (splitlines s) \<Longrightarrow> c \<in> set l \<Longrightarrow> \<not> is_linebreak c"
  using splitlines_from_no_linebreak [of "[]" s] by (simp add: splitlines_def)

lemma is_linebreak_newline: "is_linebreak newline"
  by (simp add: is_linebreak_def newline_def)

lemma strip_newline_id: "newline \<notin> set s \<Longrightarrow> strip_newline s = s"
proof -
  assume a: "newline \<notin> set s"
  have "dropWhile (\<lambda>c. c = newline) s = s"
    using a by (cases s) auto
  moreover have "dropWhile (\<lambda>c. c = newline) (rev s) = rev s"
    using a by (cases "rev s") (auto simp: rev_eq_Cons_iff)
  ultimately show ?thesis by (simp add: strip_newline_def)
qed

lemma map_strip_newline_splitlines:
  "set ls \<subseteq> set (splitlines s) \<Longrightarrow> map strip_newline ls = ls"
proof (induction ls)
  case Nil
  then show ?case by simp
next
  case (Cons l ls)
  have "newline \<notin> set l"
    using Cons.prems splitlines_no_linebreak [of l s newline] is_linebreak_newline by auto
  then show ?case using Cons by (simp add: strip_newline_id)
qed

lemma splice_splitlines:
  assumes "first_marker_line (splitlines t) = Some i"
  shows "splice lines (splitlines t) = Inr (lines @ drop (i + 6) (splitlines t))"
proof -
  have "map strip_newline (drop (i + 6) (splitlines t)) = drop (i + 6) (splitlines t)"
    by (rule map_strip_newline_splitlines) (rule set_drop_subset)
  then show ?thesis using assms by (simp add: splice_def Let_def)
qed

subsection \<open>Sorting a dictionary by its keys\<close>

lemma distinct_map_sort_key: "distinct (map f (sort_key f xs)) = distinct (map f xs)"
  by (induction xs) (simp_all add: distinct_insort_key)

lemma sorted_by_key_props:
  "sorted (map fst (sorted_by_key d))"
  "distinct (map fst (sorted_by_key d)) = distinct (map fst d)"
  "set (sorted_by_key d) = set d"
  by (simp_all add: sorted_by_key_def distinct_map_sort_key)

lemma map_of_sorted_by_key:
  "distinct (map fst d) \<Longrightarrow> map_of (sorted_by_key d) = map_of d"
  by (simp add: map_of_inject_set sorted_by_key_props)

subsection \<open>The model builder\<close>

lemma normalize_scale_loop_ok:
  assumes "scale_definitions_ok defs"
  shows "\<exists>d'. normalize_scale_loop d defs = Inr d'
           \<and> map_of d' = map_of (rev (List.map_filter scale_item defs) @ d)
           \<and> (distinct (map fst d) \<longrightarrow> distinct (map fst d'))"
  using assms
proof (induction defs arbitrary: d)
  case Nil
  then show ?case by simp
next
  case (Cons entry rest)
  obtain k p where entry: "entry = (k, p)" by (cases entry)
  from Cons.prems obtain n l where
    k: "py_int16 k = Inr n" and p: "p = Some l" and rest: "scale_definitions_ok rest"
    by (auto simp: scale_definitions_ok_def scale_item_def entry split: sum.splits option.splits)
  let ?t = "enum_name_format l True"
  have item: "scale_item entry = Some (?t, n)"
    by (simp add: scale_item_def entry k p)
  from Cons.IH [OF rest, of "AList.update ?t n d"] obtain d' where
    d': "normalize_scale_loop (AList.update ?t n d) rest = Inr d'"
    "map_of d' = map_of (rev (List.map_filter scale_item rest) @ AList.update ?t n d)"
    "distinct (map fst (AList.update ?t n d)) \<longrightarrow> distinct (map fst d')"
    by blast
  have "normalize_scale_loop d (entry # rest) = Inr d'"
    by (simp add: entry k p d'(1))
  moreover have "map_of d' = map_of (rev (List.map_filter scale_item (entry # rest)) @ d)"
    by (simp add: d'(2) item update_conv')
  moreover have "distinct (map fst d) \<longrightarrow> distinct (map fst d')"
    using d'(3) by (simp add: distinct_update)
  ultimately show ?case by blast
qed

lemma normalize_scale_definition_ok:
  assumes "scale_definitions_ok defs"
  shows "\<exists>d. normalize_scale_definition defs = Inr d
           \<and> sorted (map fst d) \<and> distinct (map fst d)
           \<and> map_of d = map_of (rev (List.map_filter scale_item defs))"
proof -
  from normalize_scale_loop_ok [OF assms, of "[]"] obtain d' where
    d': "normalize_scale_loop [] defs = Inr d'"
    "map_of d' = map_of (rev (List.map_filter scale_item defs))"
    "distinct (map fst d')"
    by auto
  have "normalize_scale_definition defs = Inr (sorted_by_key d')"
    by (simp add: normalize_scale_definition_def d'(1))
  then show ?thesis
    using d' by (simp add: sorted_by_key_props map_of_sorted_by_key)
qed

lemma sensor_step_ok:
  assumes "sensor_props_ok entry"
  shows "\<exists>name e scales'. sensor_item entry = Some (name, e)
           \<and> sensor_step (scales, sensors) entry = Inr (scales', AList.update name e sensors)"
proof -
  obtain k p where entry: "entry = (k, p)" by (cases entry)
  from assms obtain n l r where
    k: "py_int16 k = Inr n" and l: "props_label p = Some l" and r: "props_scales p = Some r"
    by (auto simp: sensor_props_ok_def sensor_item_def entry split: sum.splits option.splits)
  show ?thesis
  proof (cases r)
    case (Named ref)
    then show ?thesis
      by (simp add: sensor_step_def sensor_item_def entry k l r Let_def)
  next
    case (Inline defs)
    then have "scale_definitions_ok defs"
      using assms by (simp add: sensor_props_ok_def entry r)
    then obtain d where "normalize_scale_definition defs = Inr d"
      using normalize_scale_definition_ok by blast
    then show ?thesis
      by (simp add: sensor_step_def sensor_item_def entry k l r Inline Let_def)
  qed
qed

lemma sensors_loop_ok:
  assumes "list_all sensor_props_ok sensor_types"
  shows "\<exists>scales' sensors'. sensors_loop (scales, sensors) sensor_types = Inr (scales', sensors')
           \<and> map_of sensors' = map_of (rev (List.map_filter sensor_item sensor_types) @ sensors)
           \<and> (distinct (map fst sensors) \<longrightarrow> distinct (map fst sensors'))"
  using assms
proof (induction sensor_types arbitrary: scales sensors)
  case Nil
  then show ?case by simp
next
  case (Cons entry rest)
  from Cons.prems have ok: "sensor_props_ok entry" and rest: "list_all sensor_props_ok rest"
    by simp_all
  from sensor_step_ok [OF ok, of scales sensors] obtain name e scales1 where
    item: "sensor_item entry = Some (name, e)" and
    step: "sensor_step (scales, sensors) entry = Inr (scales1, AList.update name e sensors)"
    by blast
  from Cons.IH [OF rest, of scales1 "AList.update name e sensors"] obtain scales' sensors' where
    l: "sensors_loop (scales1, AList.update name e sensors) rest = Inr (scales', sensors')"
    "map_of sensors' =
       map_of (rev (List.map_filter sensor_item rest) @ AList.update name e sensors)"
    "distinct (map fst (AList.update name e sensors)) \<longrightarrow> distinct (map fst sensors')"
    by blast
  have "sensors_loop (scales, sensors) (entry # rest) = Inr (scales', sensors')"
    by (simp add: step l(1))
  moreover have
    "map_of sensors' = map_of (rev (List.map_filter sensor_item (entry # rest)) @ sensors)"
    by (simp add: l(2) item update_conv')
  moreover have "distinct (map fst sensors) \<longrightarrow> distinct (map fst sensors')"
    using l(3) by (simp add: distinct_update)
  ultimately show ?case by blast
qed

lemma default_scales_loop_ok:
  assumes "list_all (\<lambda>g. scale_definitions_ok (snd g)) default_scales"
  shows "\<exists>scales'. default_scales_loop scales default_scales = Inr scales'"
  using assms
proof (induction default_scales arbitrary: scales)
  case Nil
  then show ?case by simp
next
  case (Cons g rest)
  obtain scale_name scale_def where g: "g = (scale_name, scale_def)" by (cases g)
  from Cons.prems obtain d where "normalize_scale_definition scale_def = Inr d"
    using normalize_scale_definition_ok [of scale_def] by (auto simp: g)
  then show ?case using Cons by (simp add: g)
qed

lemma build_ok:
  assumes "list_all (\<lambda>g. scale_definitions_ok (snd g)) default_scales"
    and "list_all sensor_props_ok sensor_types"
  shows "\<exists>scales sensors. build default_scales sensor_types = Inr (scales, sensors)
           \<and> sorted (map fst sensors) \<and> distinct (map fst sensors)
           \<and> map_of sensors = map_of (rev (List.map_filter sensor_item sensor_types))"
proof -
  from default_scales_loop_ok [OF assms(1), of "[]"] obtain scales0 where
    s0: "default_scales_loop [] default_scales = Inr scales0"
    by blast
  from sensors_loop_ok [OF assms(2), of scales0 "[]"] obtain scales1 sensors1 where
    s1: "sensors_loop (scales0, []) sensor_types = Inr (scales1, sensors1)"
    "map_of sensors1 = map_of (rev (List.map_filter sensor_item sensor_types))"
    "distinct (map fst sensors1)"
    by auto
  have "build default_scales sensor_types
        = Inr (sorted_by_key scales1, sorted_by_key sensors1)"
    by (simp add: build_def s0 s1(1))
  then show ?thesis
    using s1 by (simp add: sorted_by_key_props map_of_sorted_by_key)
qed

subsection \<open>The unit index\<close>











subsection \<open>The names in the tables of the build\<close>



















subsection \<open>Writing and reading lines\<close>








subsection \<open>Where the marker can stand\<close>






subsection \<open>The characters of the rendered lines\<close>























subsection \<open>Splicing twice\<close>















subsection \<open>The parenthesis rule of the sensor names\<close>



subsection \<open>Labels with the same name\<close>

text \<open>
  C1, as the code has it: two labels of one table that normalize to the same name raise
  no error. Whenever every entry can be read (the keys are hexadecimal numbers, the
  labels are there), the scale definition and the build return a result; the keys of
  the result are distinct and sorted, and a name is mapped to what the last entry with
  that name contributes (\<open>map_of (rev xs)\<close> looks up the last pair of \<open>xs\<close> with the
  key): the later entry overwrites the earlier one.
\<close>

theorem name_collision_overwrites:
  "(scale_definitions_ok defs \<longrightarrow>
      (\<exists>d. normalize_scale_definition defs = Inr d
         \<and> sorted (map fst d) \<and> distinct (map fst d)
         \<and> map_of d = map_of (rev (List.map_filter scale_item defs))))
   \<and> (list_all (\<lambda>g. scale_definitions_ok (snd g)) default_scales
        \<and> list_all sensor_props_ok sensor_types \<longrightarrow>
      (\<exists>scales sensors. build default_scales sensor_types = Inr (scales, sensors)
         \<and> sorted (map fst sensors) \<and> distinct (map fst sensors)
         \<and> map_of sensors = map_of (rev (List.map_filter sensor_item sensor_types))))"
  using normalize_scale_definition_ok [of defs] build_ok [of default_scales sensor_types]
  by blast

theorem name_collision_overwrites_witness:
  "(\<exists>d. normalize_scale_definition
           [(''0x00'', Some ''Temperature (Air)''), (''0x01'', Some ''Temperature (Water)'')]
         = Inr d
       \<and> distinct (map fst d) \<and> map_of d ''TEMPERATURE'' = Some 1)
   \<and> (\<exists>scales sensors.
         build []
           [(''0x01'', \<lparr>props_label = Some ''Temperature (Air)'',
                        props_scales = Some (Named ''$SCALES:temperature'')\<rparr>),
            (''0x02'', \<lparr>props_label = Some ''Temperature (Water)'',
                        props_scales = Some (Named ''$SCALES:temperature'')\<rparr>)]
         = Inr (scales, sensors)
       \<and> distinct (map fst sensors)
       \<and> map_option sensor_label (map_of sensors ''TEMPERATURE'') = Some ''Temperature (Water)'')"
proof -
  let ?defs = "[(''0x00'', Some ''Temperature (Air)''), (''0x01'', Some ''Temperature (Water)'')]"
  let ?st = "[(''0x01'', \<lparr>props_label = Some ''Temperature (Air)'',
                           props_scales = Some (Named ''$SCALES:temperature'')\<rparr>),
              (''0x02'', \<lparr>props_label = Some ''Temperature (Water)'',
                           props_scales = Some (Named ''$SCALES:temperature'')\<rparr>)]"
  have h1: "scale_definitions_ok ?defs"
    by code_simp
  have h2: "list_all (\<lambda>g. scale_definitions_ok (snd g)) []"
    by simp
  have h3: "list_all sensor_props_ok ?st"
    by code_simp
  have v1: "map_of (rev (List.map_filter scale_item ?defs)) ''TEMPERATURE'' = Some 1"
    by code_simp
  have v2: "map_option sensor_label
              (map_of (rev (List.map_filter sensor_item ?st)) ''TEMPERATURE'')
            = Some ''Temperature (Water)''"
    by code_simp
  note t = name_collision_overwrites [of ?defs "[]" ?st]
  from t h1 obtain d where
    d: "normalize_scale_definition ?defs = Inr d" "distinct (map fst d)"
    "map_of d = map_of (rev (List.map_filter scale_item ?defs))"
    by blast
  from t h2 h3 obtain scales sensors where
    b: "build [] ?st = Inr (scales, sensors)" "distinct (map fst sensors)"
    "map_of sensors = map_of (rev (List.map_filter sensor_item ?st))"
    by blast
  have "map_of d ''TEMPERATURE'' = Some 1"
    by (simp only: d(3) v1)
  moreover have
    "map_option sensor_label (map_of sensors ''TEMPERATURE'') = Some ''Temperature (Water)''"
    by (simp only: b(3) v2)
  ultimately show ?thesis
    using d(1,2) b(1,2) by blast
qed

text \<open>
  The claim as the spec states it fails: the two labels of its example are both read,
  and the table holds the second one.
\<close>

theorem name_collision_counterexample:
  "build []
     [(''0x01'', \<lparr>props_label = Some ''Temperature (Air)'',
                  props_scales = Some (Named ''$SCALES:temperature'')\<rparr>),
      (''0x02'', \<lparr>props_label = Some ''Temperature (Water)'',
                  props_scales = Some (Named ''$SCALES:temperature'')\<rparr>)]
   = Inr ([], [(''TEMPERATURE'',
                \<lparr>sensor_id = 2, sensor_label = ''Temperature (Water)'',
                 sensor_scale = ''Temperature''\<rparr>)])
   \<and> normalize_scale_definition
        [(''0x00'', Some ''Temperature (Air)''), (''0x01'', Some ''Temperature (Water)'')]
     = Inr [(''TEMPERATURE'', 1)]"
  by code_simp

subsection \<open>The hand-written lines survive the splice\<close>

text \<open>
  C2: when a line of the previous file contains the marker, the splice returns the new
  lines followed by the lines of the previous file from the sixth line after the first
  marker line on, unchanged and in their order. When the previous file ends before that
  line, nothing is kept and the splice returns the new lines.
\<close>

theorem handwritten_suffix_round_trip:
  assumes "line \<in> set (splitlines t)" and "sublist end_marker line"
  shows "\<exists>i. first_marker_line (splitlines t) = Some i
            \<and> i < length (splitlines t)
            \<and> sublist end_marker (splitlines t ! i)
            \<and> (\<forall>j<i. \<not> sublist end_marker (splitlines t ! j))
            \<and> splice lines (splitlines t) = Inr (lines @ drop (i + 6) (splitlines t))
            \<and> (length (splitlines t) \<le> i + 6 \<longrightarrow> splice lines (splitlines t) = Inr lines)"
proof -
  have "first_marker_line (splitlines t) \<noteq> None"
    using assms by (auto simp: first_marker_line_None)
  then obtain i where i: "first_marker_line (splitlines t) = Some i"
    by auto
  have "splice lines (splitlines t) = Inr (lines @ drop (i + 6) (splitlines t))"
    using i by (rule splice_splitlines)
  then show ?thesis
    using i first_marker_line_Some [of "splitlines t" i] by auto
qed

theorem handwritten_suffix_round_trip_witness:
  "splice [''NEW''] (splitlines (py_join [newline] (end_marker_block @ [''X = 1'', '''', ''Y = 2''])))
     = Inr [''NEW'', ''X = 1'', '''', ''Y = 2'']
   \<and> splice [''NEW''] (splitlines (py_join [newline] end_marker_block)) = Inr [''NEW'']"
proof -
  let ?m = "''# **END OF AUTOGENERATED CONTENT** (DO NOT EDIT/REMOVE THIS COMMENT BLOCK AND DO NOT  #''"
  let ?t = "py_join [newline] (end_marker_block @ [''X = 1'', '''', ''Y = 2''])"
  let ?u = "py_join [newline] end_marker_block"
  have t: "splitlines ?t = end_marker_block @ [''X = 1'', '''', ''Y = 2'']"
    by code_simp
  have u: "splitlines ?u = butlast end_marker_block"
    by code_simp
  have m: "sublist end_marker ?m"
    by code_simp
  have f: "first_marker_line end_marker_block = Some 2"
    "first_marker_line (butlast end_marker_block) = Some 2"
    "first_marker_line (end_marker_block @ [''X = 1'', '''', ''Y = 2'']) = Some 2"
    by code_simp+
  have mt: "?m \<in> set (splitlines ?t)"
    unfolding t by (simp add: end_marker_block_def)
  have mu: "?m \<in> set (splitlines ?u)"
    unfolding u by (simp add: end_marker_block_def)
  show ?thesis
    using handwritten_suffix_round_trip [OF mt m, of "[''NEW'']"]
      handwritten_suffix_round_trip [OF mu m, of "[''NEW'']"]
    unfolding t u by (auto simp: f) (simp_all add: end_marker_block_def)
qed

subsection \<open>Running the generator twice\<close>




subsection \<open>A symbolic scale reference\<close>

text \<open>
  C4, as the code has it: the loop looks no group up. For a sensor with a symbolic
  reference the step succeeds whatever the table of the scale groups holds, leaves that
  table as it is and records the display name of the reference. A build whose entries
  can all be read returns a result, and each sensor of the result that comes from an
  entry with a symbolic reference holds the display name of that reference, whether a
  group of that name exists or not.
\<close>

theorem symbolic_reference_not_looked_up:
  "(py_int16 sensor_id_key = Inr n \<longrightarrow>
      sensor_step (scales, sensors)
        (sensor_id_key, \<lparr>props_label = Some label, props_scales = Some (Named ref)\<rparr>)
      = Inr (scales,
             AList.update (enum_name_format label (remove_parenthesis_for n))
               \<lparr>sensor_id = n, sensor_label = label,
                sensor_scale = normalize_name (py_replace ''$SCALES:'' '''' ref)\<rparr> sensors))
   \<and> (list_all (\<lambda>g. scale_definitions_ok (snd g)) default_scales
        \<and> list_all sensor_props_ok sensor_types \<longrightarrow>
      (\<exists>scales' sensors'. build default_scales sensor_types = Inr (scales', sensors')
         \<and> (\<forall>name e. map_of sensors' name = Some e \<longrightarrow>
               (\<exists>k p. (k, p) \<in> set sensor_types \<and> sensor_item (k, p) = Some (name, e)
                  \<and> (\<forall>r. props_scales p = Some (Named r) \<longrightarrow>
                        sensor_scale e = normalize_name (py_replace ''$SCALES:'' '''' r))))))"
proof (intro conjI impI)
  assume "py_int16 sensor_id_key = Inr n"
  then show "sensor_step (scales, sensors)
        (sensor_id_key, \<lparr>props_label = Some label, props_scales = Some (Named ref)\<rparr>)
      = Inr (scales,
             AList.update (enum_name_format label (remove_parenthesis_for n))
               \<lparr>sensor_id = n, sensor_label = label,
                sensor_scale = normalize_name (py_replace ''$SCALES:'' '''' ref)\<rparr> sensors)"
    by (simp add: sensor_step_def Let_def)
next
  assume "list_all (\<lambda>g. scale_definitions_ok (snd g)) default_scales
          \<and> list_all sensor_props_ok sensor_types"
  then obtain scales' sensors' where
    b: "build default_scales sensor_types = Inr (scales', sensors')"
    "map_of sensors' = map_of (rev (List.map_filter sensor_item sensor_types))"
    using build_ok [of default_scales sensor_types] by blast
  have "\<exists>k p. (k, p) \<in> set sensor_types \<and> sensor_item (k, p) = Some (name, e)
          \<and> (\<forall>r. props_scales p = Some (Named r) \<longrightarrow>
                sensor_scale e = normalize_name (py_replace ''$SCALES:'' '''' r))"
    if "map_of sensors' name = Some e" for name e
  proof -
    from that have "(name, e) \<in> set (rev (List.map_filter sensor_item sensor_types))"
      unfolding b(2) by (rule map_of_SomeD)
    then obtain entry where entry: "entry \<in> set sensor_types" "sensor_item entry = Some (name, e)"
      by (auto simp: List.map_filter_def)
    obtain k p where kp: "entry = (k, p)" by (cases entry)
    have "sensor_scale e = normalize_name (py_replace ''$SCALES:'' '''' r)"
      if "props_scales p = Some (Named r)" for r
      using entry(2) that
      by (auto simp: sensor_item_def kp Let_def split: sum.splits option.splits)
    then show ?thesis using entry kp by blast
  qed
  then show "\<exists>scales' sensors'. build default_scales sensor_types = Inr (scales', sensors')
         \<and> (\<forall>name e. map_of sensors' name = Some e \<longrightarrow>
               (\<exists>k p. (k, p) \<in> set sensor_types \<and> sensor_item (k, p) = Some (name, e)
                  \<and> (\<forall>r. props_scales p = Some (Named r) \<longrightarrow>
                        sensor_scale e = normalize_name (py_replace ''$SCALES:'' '''' r))))"
    using b(1) by blast
qed

theorem symbolic_reference_not_looked_up_witness:
  "sensor_step ([], [])
     (''0x01'', \<lparr>props_label = Some ''Air temperature'',
                 props_scales = Some (Named ''$SCALES:temperature'')\<rparr>)
   = Inr ([], [(''AIR_TEMPERATURE'',
                \<lparr>sensor_id = 1, sensor_label = ''Air temperature'',
                 sensor_scale = ''Temperature''\<rparr>)])
   \<and> (\<exists>scales' sensors'.
         build []
           [(''0x01'', \<lparr>props_label = Some ''Air temperature'',
                        props_scales = Some (Named ''$SCALES:temperature'')\<rparr>)]
         = Inr (scales', sensors'))"
proof -
  let ?p = "\<lparr>props_label = Some ''Air temperature'',
             props_scales = Some (Named ''$SCALES:temperature'')\<rparr>"
  have k: "py_int16 ''0x01'' = Inr 1"
    by code_simp
  have h2: "list_all (\<lambda>g. scale_definitions_ok (snd g)) []"
    by simp
  have h3: "list_all sensor_props_ok [(''0x01'', ?p)]"
    by code_simp
  have name: "enum_name_format ''Air temperature'' (remove_parenthesis_for 1) = ''AIR_TEMPERATURE''"
    by code_simp
  have scale: "normalize_name ''temperature'' = ''Temperature''"
    by code_simp
  show ?thesis
    using symbolic_reference_not_looked_up
      [of "''0x01''" 1 "[]" "[]" "''Air temperature''" "''$SCALES:temperature''" "[]"
          "[(''0x01'', ?p)]"]
      k h2 h3
    by (auto simp: name scale)
qed

text \<open>
  The claim as the spec states it fails: no scale group is built at all, and the build
  returns the sensor with the scale \<^verbatim>\<open>Temperature\<close>.
\<close>

theorem unresolved_reference_counterexample:
  "build []
     [(''0x01'', \<lparr>props_label = Some ''Air temperature'',
                  props_scales = Some (Named ''$SCALES:temperature'')\<rparr>)]
   = Inr ([], [(''AIR_TEMPERATURE'',
                \<lparr>sensor_id = 1, sensor_label = ''Air temperature'',
                 sensor_scale = ''Temperature''\<rparr>)])"
  by code_simp

subsection \<open>A previous file without the marker\<close>

text \<open>
  C5: when no line of the previous file contains the marker, the splice raises the
  exception of \<^verbatim>\<open>next\<close> on an exhausted generator, the script ends with an uncaught
  exception, and the file and the output of the script are as they were before the run.
\<close>

theorem missing_marker_error:
  assumes "\<forall>line\<in>set existing. \<not> sublist end_marker line"
  shows "splice lines existing = Inl StopIteration
         \<and> (read_text w = Inr t \<and> splitlines t = existing \<longrightarrow>
              (\<exists>err. script default_scales sensor_types e w = (Uncaught err, w)
                 \<and> (\<forall>tables. build default_scales sensor_types = Inr tables
                      \<longrightarrow> err = StopIteration)))"
proof -
  have none: "first_marker_line existing = None"
    using assms by (simp add: first_marker_line_None)
  then have s: "splice ls existing = Inl StopIteration" for ls
    by (simp add: splice_def)
  show ?thesis
    using s by (auto simp: script_def regenerate_def split: sum.splits prod.splits)
qed

theorem missing_marker_error_witness:
  "script [] []
     \<lparr>which_black = None, black = (\<lambda>t. (None, t)), which_git = None, git_diff_stat = None\<rparr>
     \<lparr>const_file = Some ''X = 1'', printed = []\<rparr>
   = (Uncaught StopIteration, \<lparr>const_file = Some ''X = 1'', printed = []\<rparr>)"
proof -
  let ?e = "\<lparr>which_black = None, black = (\<lambda>t. (None, t)), which_git = None,
             git_diff_stat = None\<rparr>"
  let ?w = "\<lparr>const_file = Some ''X = 1'', printed = []\<rparr>"
  have r: "read_text ?w = Inr ''X = 1''"
    by code_simp
  have l: "splitlines ''X = 1'' = [''X = 1'']"
    by code_simp
  have n: "\<forall>line\<in>set [''X = 1'']. \<not> sublist end_marker line"
    by code_simp
  have b: "build [] [] = Inr ([], [])"
    by code_simp
  show ?thesis
    using missing_marker_error [OF n, of "[]" ?w "''X = 1''" "[]" "[]" ?e] r l b by auto
qed

subsection \<open>The unit index is complete and sorted\<close>



subsection \<open>The scale of a sensor\<close>



subsection \<open>The check of the working tree\<close>

text \<open>
  C9: the script means to end with status 1 when \<^verbatim>\<open>git diff --stat\<close> reports
  changes, and to print a warning when the check cannot run. The output of
  \<^verbatim>\<open>git diff --stat\<close> is not captured, so the test of its \<^verbatim>\<open>stdout\<close> never
  succeeds: the check never ends the script with an exit status of its own, and on a
  dirty tree the script completes with status 0. A \<^verbatim>\<open>which git\<close> that fails raises
  an exception instead of leading to the warning.
\<close>

theorem git_check_dirty_tree:
  "fst (git_check e w) \<noteq> SysExit n
   \<and> git_check
        \<lparr>which_black = b, black = f,
         which_git = Some \<lparr>returncode = 0, proc_stdout = ''/usr/bin/git''\<rparr>,
         git_diff_stat = Some \<lparr>returncode = 0, proc_stdout = '' multilevel_sensor.py | 4 ++--''\<rparr>\<rparr> w
       = (Completed, w)
   \<and> exit_status Completed = 0
   \<and> git_check
        \<lparr>which_black = b, black = f,
         which_git = Some \<lparr>returncode = 1, proc_stdout = ''''\<rparr>,
         git_diff_stat = d\<rparr> w
       = (Uncaught CalledProcessError, w)"
  by (simp add: git_check_def subprocess_run_stdout_def split: option.splits sum.splits)

subsection \<open>The display name is idempotent\<close>

text \<open>
  C10: normalizing a display name again does not change it. So the class name of a scale
  group is the same whether it is formed from a name or from the display name of that
  name: the class emitted for a group stored under a sensor name is the class that the
  sensor's entry, which holds the display name of the sensor name, is mapped to.
\<close>

theorem normalize_name_idempotent:
  "normalize_name (normalize_name s) = normalize_name s
   \<and> format_for_class_name (normalize_name s) = format_for_class_name s"
  by (simp add: normalize_name_idem format_for_class_name_normalize)

theorem normalize_name_idempotent_witness:
  "normalize_name (normalize_name ''AIR_TEMPERATURE'') = ''Air Temperature''
   \<and> format_for_class_name ''Air Temperature'' = ''AirTemperatureScale''
   \<and> format_for_class_name ''AIR_TEMPERATURE'' = ''AirTemperatureScale''"
proof -
  have n: "normalize_name ''AIR_TEMPERATURE'' = ''Air Temperature''"
    by code_simp
  have f: "format_for_class_name ''AIR_TEMPERATURE'' = ''AirTemperatureScale''"
    by code_simp
  show ?thesis
    using normalize_name_idempotent [of "''AIR_TEMPERATURE''"] by (simp add: n f)
qed

end
